theory Spec2Isabelle
  imports Main
begin

section \<open>JavaScript values\<close>

text \<open>
  The facade is typed \<open>any\<close> wherever it touches the native module: the resolved payloads,
  the caught rejection values and, at run time, the configuration object. The values are
  modelled as the data a native module can hand over: \<open>undefined\<close>, \<open>null\<close>, booleans,
  numbers, strings and plain objects with string keys (an association list, read with
  \<open>map_of\<close>), and the built-in error objects the engine itself throws (\<open>JSError name message\<close>).
  Numbers are the integral ones of the safe range; fractions, NaN and arrays are not
  represented, and nothing below computes with a number.
\<close>

datatype jsval =
    Undefined
  | Null
  | Bool bool
  | Num int
  | Str string
  | Obj "(string \<times> jsval) list"
  | JSError string string

text \<open>Truthiness, as \<open>||\<close> and \<open>?:\<close> test it.\<close>

fun truthy :: "jsval \<Rightarrow> bool" where
  "truthy Undefined = False"
| "truthy Null = False"
| "truthy (Bool b) = b"
| "truthy (Num n) = (n \<noteq> 0)"
| "truthy (Str s) = (s \<noteq> [])"
| "truthy (Obj kvs) = True"
| "truthy (JSError n m) = True"

text \<open>\<open>a || b\<close>\<close>

definition js_or :: "jsval \<Rightarrow> jsval \<Rightarrow> jsval" where
  "js_or a b = (if truthy a then a else b)"

text \<open>Whether an object carries a key at all (\<open>k in o\<close> for a plain object).\<close>

fun has_key :: "jsval \<Rightarrow> string \<Rightarrow> bool" where
  "has_key (Obj kvs) k = (k \<in> fst ` set kvs)"
| "has_key v k = False"

text \<open>
  Reading a property of a value that is neither \<open>undefined\<close> nor \<open>null\<close>. A key that is
  missing reads as \<open>undefined\<close>, exactly as a key that is present with the value
  \<open>undefined\<close> does. Primitives carry no data properties of their own; the methods they
  inherit from their prototypes are not data and read as \<open>undefined\<close> here.
\<close>

fun read :: "jsval \<Rightarrow> string \<Rightarrow> jsval" where
  "read (Obj kvs) k = (case map_of kvs k of Some v \<Rightarrow> v | None \<Rightarrow> Undefined)"
| "read (JSError n m) k =
     (if k = ''name'' then Str n else if k = ''message'' then Str m else Undefined)"
| "read v k = Undefined"

text \<open>
  Computations that may throw: \<open>Inl\<close> carries the thrown value. The wording of the
  engine's TypeError messages is the engine's own; no property below depends on it.
\<close>

definition TypeError :: "string \<Rightarrow> jsval" where
  "TypeError m = JSError ''TypeError'' m"

definition bind_js :: "jsval + 'a \<Rightarrow> ('a \<Rightarrow> jsval + 'b) \<Rightarrow> jsval + 'b" where
  "bind_js r f = (case r of Inl e \<Rightarrow> Inl e | Inr v \<Rightarrow> f v)"

text \<open>\<open>v.k\<close>: throws a TypeError on \<open>undefined\<close> and \<open>null\<close>.\<close>

definition get :: "jsval \<Rightarrow> string \<Rightarrow> jsval + jsval" where
  "get v k =
     (if v = Undefined then Inl (TypeError (''Cannot read property '' @ k @ '' of undefined''))
      else if v = Null then Inl (TypeError (''Cannot read property '' @ k @ '' of null''))
      else Inr (read v k))"

text \<open>Decimal rendering of an integral number.\<close>

fun show_nat :: "nat \<Rightarrow> string" where
  "show_nat n =
     (if n < 10 then [char_of (48 + n)]
      else show_nat (n div 10) @ [char_of (48 + n mod 10)])"

declare show_nat.simps [simp del]

definition show_int :: "int \<Rightarrow> string" where
  "show_int i = (if i < 0 then CHR ''-'' # show_nat (nat (- i)) else show_nat (nat i))"

text \<open>
  The string conversion that the \<open>Error\<close> constructor applies to its argument. A plain
  object converts through \<open>Object.prototype.toString\<close>, unless an own entry named
  \<open>toString\<close> shadows it: the entry is data, not callable, and the inherited \<open>valueOf\<close>
  returns the object itself, so the conversion throws.
\<close>

fun to_string :: "jsval \<Rightarrow> jsval + string" where
  "to_string Undefined = Inr ''undefined''"
| "to_string Null = Inr ''null''"
| "to_string (Bool b) = Inr (if b then ''true'' else ''false'')"
| "to_string (Num n) = Inr (show_int n)"
| "to_string (Str s) = Inr s"
| "to_string (Obj kvs) =
     (if ''toString'' \<in> fst ` set kvs
      then Inl (TypeError ''Cannot convert object to primitive value'')
      else Inr ''[object Object]'')"
| "to_string (JSError n m) =
     Inr (if n = [] then m else if m = [] then n else n @ '': '' @ m)"

section \<open>The typed errors (errors.ts)\<close>

text \<open>
  An instance of \<open>DynalinksError\<close> or of one of its subclasses: the \<open>name\<close> the
  constructor sets, the stable \<open>code\<close>, and the \<open>message\<close> of the underlying \<open>Error\<close>.
\<close>

record DynalinksError =
  name :: string
  code :: string
  message :: string

text \<open>
  \<open>new DynalinksError(code, message)\<close>: \<open>super(message)\<close> converts a message that is not
  \<open>undefined\<close> to a string; without one, \<open>message\<close> reads as the empty string of
  \<open>Error.prototype\<close>.
\<close>

definition new_DynalinksError :: "string \<Rightarrow> jsval \<Rightarrow> jsval + DynalinksError" where
  "new_DynalinksError c m =
     bind_js (if m = Undefined then Inr [] else to_string m)
       (\<lambda>s. Inr \<lparr>name = ''DynalinksError'', code = c, message = s\<rparr>)"

text \<open>A subclass constructor: \<open>super(code, message); this.name = n\<close>.\<close>

definition derived :: "string \<Rightarrow> string \<Rightarrow> jsval \<Rightarrow> jsval + DynalinksError" where
  "derived n c m = bind_js (new_DynalinksError c m) (\<lambda>e. Inr (e\<lparr>name := n\<rparr>))"

text \<open>A default parameter value applies when the argument is \<open>undefined\<close>, and only then.\<close>

definition default_arg :: "string \<Rightarrow> jsval \<Rightarrow> jsval" where
  "default_arg d m = (if m = Undefined then Str d else m)"

definition NotConfiguredError :: "jsval + DynalinksError" where
  "NotConfiguredError =
     derived ''NotConfiguredError'' ''NOT_CONFIGURED''
       (Str ''Dynalinks SDK has not been configured. Call Dynalinks.configure() first.'')"

definition InvalidApiKeyError :: "jsval \<Rightarrow> jsval + DynalinksError" where
  "InvalidApiKeyError m =
     derived ''InvalidApiKeyError'' ''INVALID_API_KEY''
       (default_arg ''Invalid API key format'' m)"

definition SimulatorError :: "jsval + DynalinksError" where
  "SimulatorError =
     derived ''SimulatorError'' ''SIMULATOR''
       (Str ''Deferred deep linking is not available on simulator/emulator. Set allowSimulator: true in configuration for testing.'')"

definition NetworkError :: "jsval \<Rightarrow> jsval + DynalinksError" where
  "NetworkError m =
     derived ''NetworkError'' ''NETWORK_ERROR'' (default_arg ''Network request failed'' m)"

definition ServerError :: "jsval \<Rightarrow> jsval + DynalinksError" where
  "ServerError m = derived ''ServerError'' ''SERVER_ERROR'' (default_arg ''Server error'' m)"

definition InvalidResponseError :: "jsval + DynalinksError" where
  "InvalidResponseError =
     derived ''InvalidResponseError'' ''INVALID_RESPONSE''
       (Str ''Received invalid response from server'')"

definition NoMatchError :: "jsval + DynalinksError" where
  "NoMatchError = derived ''NoMatchError'' ''NO_MATCH'' (Str ''No matching link found'')"

definition InstallReferrerUnavailableError :: "jsval + DynalinksError" where
  "InstallReferrerUnavailableError =
     derived ''InstallReferrerUnavailableError'' ''INSTALL_REFERRER_UNAVAILABLE''
       (Str ''Install referrer service is unavailable on this device'')"

definition InstallReferrerTimeoutError :: "jsval + DynalinksError" where
  "InstallReferrerTimeoutError =
     derived ''InstallReferrerTimeoutError'' ''INSTALL_REFERRER_TIMEOUT''
       (Str ''Install referrer service timed out'')"

definition InvalidUrlError :: "jsval \<Rightarrow> jsval + DynalinksError" where
  "InvalidUrlError m =
     derived ''InvalidUrlError'' ''INVALID_URL'' (default_arg ''Invalid URL format'' m)"

text \<open>
  \<open>fromNativeError(code, message)\<close>, the eleven-case table of the current \<open>errors.ts\<close>.
  The \<open>switch\<close> compares with \<open>===\<close>, so only a string can select a case.
\<close>

definition fromNativeError :: "jsval \<Rightarrow> jsval \<Rightarrow> jsval + DynalinksError" where
  "fromNativeError c m =
     (if c = Str ''NOT_CONFIGURED'' then NotConfiguredError
      else if c = Str ''INVALID_API_KEY'' then InvalidApiKeyError m
      else if c = Str ''SIMULATOR'' then SimulatorError
      else if c = Str ''NETWORK_ERROR'' then NetworkError m
      else if c = Str ''SERVER_ERROR'' then ServerError m
      else if c = Str ''INVALID_RESPONSE'' then InvalidResponseError
      else if c = Str ''NO_MATCH'' then NoMatchError
      else if c = Str ''INSTALL_REFERRER_UNAVAILABLE'' then InstallReferrerUnavailableError
      else if c = Str ''INSTALL_REFERRER_TIMEOUT'' then InstallReferrerTimeoutError
      else if c = Str ''INVALID_URL'' then InvalidUrlError m
      else if c = Str ''INVALID_INTENT'' then InvalidUrlError m
      else new_DynalinksError ''UNKNOWN'' (js_or m (Str ''Unknown error occurred'')))"

text \<open>The ten codes of the fixed table, and those whose variant takes the native message.\<close>

definition native_codes :: "string list" where
  "native_codes =
     [''NOT_CONFIGURED'', ''INVALID_API_KEY'', ''SIMULATOR'', ''NETWORK_ERROR'',
      ''SERVER_ERROR'', ''INVALID_RESPONSE'', ''NO_MATCH'', ''INSTALL_REFERRER_UNAVAILABLE'',
      ''INSTALL_REFERRER_TIMEOUT'', ''INVALID_URL'']"

definition dynamic_codes :: "string list" where
  "dynamic_codes = [''INVALID_API_KEY'', ''NETWORK_ERROR'', ''SERVER_ERROR'', ''INVALID_URL'']"

definition accepted_codes :: "string list" where
  "accepted_codes = native_codes @ [''INVALID_INTENT'']"

text \<open>The codes a typed error can carry (the taxonomy): the table and the catch-all.\<close>

definition taxonomy :: "string list" where
  "taxonomy = native_codes @ [''UNKNOWN'']"

section \<open>The native module (DynalinksModule.ts)\<close>

text \<open>
  A call into the native module returns a promise; \<open>await\<close> sees it settled, resolved
  with a payload or rejected with a value. The module is a parameter of the facade: any
  three functions of this type. \<open>checkForDeferredDeepLink\<close> takes no argument.
\<close>

datatype settled = Resolved jsval | Rejected jsval

record ExpoDynalinksSdkNativeModule =
  native_configure :: "jsval \<Rightarrow> settled"
  native_checkForDeferredDeepLink :: settled
  native_resolveLink :: "jsval \<Rightarrow> settled"

text \<open>The calls an operation makes into the native module, in order, with their arguments.\<close>

datatype call = ConfigureCall jsval | CheckForDeferredDeepLinkCall | ResolveLinkCall jsval

section \<open>The facade (Dynalinks.ts)\<close>

text \<open>
  How the promise returned by an operation settles: fulfilled with a value, rejected with
  a typed error built by \<open>fromNativeError\<close>, or rejected with a value thrown inside the
  \<open>catch\<close> block itself, which nothing converts.
\<close>

datatype outcome = Fulfilled jsval | RejectedWith DynalinksError | RejectedRaw jsval

text \<open>
  The \<open>catch\<close> block, the same in the three operations:
  \<open>throw fromNativeError(error.code || 'UNKNOWN', error.message)\<close>.
\<close>

definition catch_native :: "jsval \<Rightarrow> outcome" where
  "catch_native error =
     (case bind_js (get error ''code'') (\<lambda>c.
           bind_js (get error ''message'') (\<lambda>m.
             fromNativeError (js_or c (Str ''UNKNOWN'')) m)) of
        Inl thrown \<Rightarrow> RejectedRaw thrown
      | Inr e \<Rightarrow> RejectedWith e)"

text \<open>
  \<open>configure(config)\<close>. The argument object is built inside the \<open>try\<close>, so a throw while
  reading \<open>config\<close> is caught like a rejection, before any call is made.
\<close>

definition configure :: "ExpoDynalinksSdkNativeModule \<Rightarrow> jsval \<Rightarrow> call list \<times> outcome" where
  "configure M config =
     (case bind_js (get config ''clientAPIKey'') (\<lambda>clientAPIKey.
           bind_js (get config ''baseURL'') (\<lambda>baseURL.
           bind_js (get config ''logLevel'') (\<lambda>logLevel.
           bind_js (get config ''allowSimulator'') (\<lambda>allowSimulator.
             Inr (Obj [(''clientAPIKey'', clientAPIKey),
                       (''baseURL'', baseURL),
                       (''logLevel'', js_or logLevel (Str ''error'')),
                       (''allowSimulator'', js_or allowSimulator (Bool False))]))))) of
        Inl thrown \<Rightarrow> ([], catch_native thrown)
      | Inr payload \<Rightarrow>
          ([ConfigureCall payload],
           (case native_configure M payload of
              Resolved v \<Rightarrow> Fulfilled Undefined
            | Rejected error \<Rightarrow> catch_native error)))"

text \<open>
  The fourteen fields of \<open>LinkData\<close>, each with the key of the native link object it is
  read from, in the order of the object literal in \<open>parseResult\<close>.
\<close>

definition link_fields :: "(string \<times> string) list" where
  "link_fields =
     [(''id'', ''id''),
      (''name'', ''name''),
      (''path'', ''path''),
      (''shortenedPath'', ''shortened_path''),
      (''url'', ''url''),
      (''fullUrl'', ''full_url''),
      (''deepLinkValue'', ''deep_link_value''),
      (''iosFallbackUrl'', ''ios_fallback_url''),
      (''androidFallbackUrl'', ''android_fallback_url''),
      (''enableForcedRedirect'', ''enable_forced_redirect''),
      (''socialTitle'', ''social_title''),
      (''socialDescription'', ''social_description''),
      (''socialImageUrl'', ''social_image_url''),
      (''clicks'', ''clicks'')]"

text \<open>The entries \<open>field: nativeResult.link.key\<close> of the inner object literal, left to right.\<close>

fun link_entries :: "jsval \<Rightarrow> (string \<times> string) list \<Rightarrow> jsval + (string \<times> jsval) list" where
  "link_entries nativeResult [] = Inr []"
| "link_entries nativeResult ((field, key) # rest) =
     bind_js (bind_js (get nativeResult ''link'') (\<lambda>link. get link key)) (\<lambda>v.
     bind_js (link_entries nativeResult rest) (\<lambda>kvs.
       Inr ((field, v) # kvs)))"

text \<open>\<open>parseResult(nativeResult, isDeferred)\<close>\<close>

definition parseResult :: "jsval \<Rightarrow> bool \<Rightarrow> jsval + jsval" where
  "parseResult nativeResult isDeferred =
     bind_js (get nativeResult ''matched'') (\<lambda>matched.
     bind_js (get nativeResult ''confidence'') (\<lambda>confidence.
     bind_js (get nativeResult ''match_score'') (\<lambda>match_score.
     bind_js (get nativeResult ''link'') (\<lambda>link.
     bind_js (if truthy link
              then bind_js (link_entries nativeResult link_fields) (\<lambda>kvs. Inr (Obj kvs))
              else Inr Undefined) (\<lambda>linkData.
       Inr (Obj [(''matched'', js_or matched (Bool False)),
                 (''confidence'', confidence),
                 (''matchScore'', match_score),
                 (''link'', linkData),
                 (''isDeferred'', Bool isDeferred)]))))))"

text \<open>
  The body \<open>try { const result = await call; return this.parseResult(result, flag) }
  catch (error) { ... }\<close> shared by the two link operations.
\<close>

definition parse_settled :: "settled \<Rightarrow> bool \<Rightarrow> outcome" where
  "parse_settled s isDeferred =
     (case s of
        Resolved result \<Rightarrow>
          (case parseResult result isDeferred of
             Inl thrown \<Rightarrow> catch_native thrown
           | Inr r \<Rightarrow> Fulfilled r)
      | Rejected error \<Rightarrow> catch_native error)"

definition checkForDeferredDeepLink :: "ExpoDynalinksSdkNativeModule \<Rightarrow> call list \<times> outcome" where
  "checkForDeferredDeepLink M =
     ([CheckForDeferredDeepLinkCall], parse_settled (native_checkForDeferredDeepLink M) True)"

definition resolveLink :: "ExpoDynalinksSdkNativeModule \<Rightarrow> jsval \<Rightarrow> call list \<times> outcome" where
  "resolveLink M url = ([ResolveLinkCall url], parse_settled (native_resolveLink M url) False)"

section \<open>Shapes used to state the contract\<close>

text \<open>
  The shape of a normalized result (types.ts): an object with the five fields of
  \<open>DeepLinkResult\<close>, whose \<open>link\<close> is \<open>undefined\<close> or an object with the fourteen fields
  of \<open>LinkData\<close>, and whose \<open>isDeferred\<close> is the given flag.
\<close>

definition is_LinkData :: "jsval \<Rightarrow> bool" where
  "is_LinkData v = (case v of Obj kvs \<Rightarrow> map fst kvs = map fst link_fields | _ \<Rightarrow> False)"

definition is_DeepLinkResult :: "bool \<Rightarrow> jsval \<Rightarrow> bool" where
  "is_DeepLinkResult isDeferred v =
     (case v of
        Obj kvs \<Rightarrow>
          map fst kvs = [''matched'', ''confidence'', ''matchScore'', ''link'', ''isDeferred'']
          \<and> (read v ''link'' = Undefined \<or> is_LinkData (read v ''link''))
          \<and> read v ''isDeferred'' = Bool isDeferred
      | _ \<Rightarrow> False)"

text \<open>
  A rejection value the \<open>catch\<close> block can convert: it is not \<open>undefined\<close> or \<open>null\<close>
  (reading \<open>error.code\<close> would throw), and its message is not an object that shadows
  \<open>toString\<close> (the \<open>Error\<close> constructor would throw).
\<close>

definition stringable :: "jsval \<Rightarrow> bool" where
  "stringable m = (case m of Obj kvs \<Rightarrow> ''toString'' \<notin> fst ` set kvs | _ \<Rightarrow> True)"

definition convertible :: "jsval \<Rightarrow> bool" where
  "convertible e = (e \<noteq> Undefined \<and> e \<noteq> Null \<and> stringable (read e ''message''))"

definition settles_convertibly :: "settled \<Rightarrow> bool" where
  "settles_convertibly s = (case s of Resolved v \<Rightarrow> True | Rejected e \<Rightarrow> convertible e)"

text \<open>Rejected with a typed error of the taxonomy, or fulfilled with a value of the given kind.\<close>

definition typed_or :: "(jsval \<Rightarrow> bool) \<Rightarrow> outcome \<Rightarrow> bool" where
  "typed_or good out =
     (case out of
        Fulfilled v \<Rightarrow> good v
      | RejectedWith e \<Rightarrow> code e \<in> set taxonomy
      | RejectedRaw x \<Rightarrow> False)"

text \<open>Two native modules used as concrete inputs.\<close>

definition resolving_module :: ExpoDynalinksSdkNativeModule where
  "resolving_module =
     \<lparr>native_configure = (\<lambda>p. Resolved Undefined),
      native_checkForDeferredDeepLink = Resolved (Obj [(''matched'', Bool False)]),
      native_resolveLink = (\<lambda>u. Resolved (Obj [(''matched'', Bool False)]))\<rparr>"

definition rejecting_module :: "jsval \<Rightarrow> ExpoDynalinksSdkNativeModule" where
  "rejecting_module e =
     \<lparr>native_configure = (\<lambda>p. Rejected e),
      native_checkForDeferredDeepLink = Rejected e,
      native_resolveLink = (\<lambda>u. Rejected e)\<rparr>"

section \<open>Auxiliary facts\<close>

lemmas error_ctor_defs =
  NotConfiguredError_def InvalidApiKeyError_def SimulatorError_def NetworkError_def
  ServerError_def InvalidResponseError_def NoMatchError_def
  InstallReferrerUnavailableError_def InstallReferrerTimeoutError_def InvalidUrlError_def
  derived_def new_DynalinksError_def default_arg_def bind_js_def

lemma get_defined: "v \<noteq> Undefined \<Longrightarrow> v \<noteq> Null \<Longrightarrow> get v k = Inr (read v k)"
  by (simp add: get_def)

lemma truthy_defined: "truthy v \<Longrightarrow> v \<noteq> Undefined \<and> v \<noteq> Null"
  by (cases v) simp_all

lemma read_absent: "key \<notin> fst ` set kvs \<Longrightarrow> read (Obj kvs) key = Undefined"
  by (simp add: map_of_eq_None_iff [THEN iffD2])

subsection \<open>The normalizer never fails on a message that converts to a string\<close>

lemma fromNativeError_unknown:
  "c \<notin> Str ` set accepted_codes \<Longrightarrow>
   fromNativeError c m = new_DynalinksError ''UNKNOWN'' (js_or m (Str ''Unknown error occurred''))"
  by (simp add: accepted_codes_def native_codes_def fromNativeError_def image_iff)

lemma to_string_total: "stringable m \<Longrightarrow> \<exists>s. to_string m = Inr s"
  by (cases m) (simp_all add: stringable_def)

lemma new_DynalinksError_total:
  assumes "stringable m"
  shows "\<exists>s. new_DynalinksError c m = Inr \<lparr>name = ''DynalinksError'', code = c, message = s\<rparr>"
proof -
  from to_string_total [OF assms] obtain s where "to_string m = Inr s" ..
  then show ?thesis by (simp add: new_DynalinksError_def bind_js_def)
qed

lemma derived_total:
  assumes "stringable m"
  shows "\<exists>s. derived n c m = Inr \<lparr>name = n, code = c, message = s\<rparr>"
proof -
  from new_DynalinksError_total [OF assms] obtain s
    where "new_DynalinksError c m = Inr \<lparr>name = ''DynalinksError'', code = c, message = s\<rparr>" ..
  then show ?thesis by (simp add: derived_def bind_js_def)
qed

lemma stringable_default_arg: "stringable m \<Longrightarrow> stringable (default_arg d m)"
  by (simp add: default_arg_def stringable_def)

lemma stringable_js_or: "stringable m \<Longrightarrow> stringable (js_or m (Str d))"
  by (simp add: js_or_def stringable_def)

lemma stringable_Str: "stringable (Str s)"
  by (simp add: stringable_def)

lemma fromNativeError_total:
  assumes "stringable m"
  shows "\<exists>e. fromNativeError c m = Inr e \<and> code e \<in> set taxonomy"
proof -
  note d = derived_total [OF stringable_default_arg [OF assms]]
  note f = derived_total [OF stringable_Str]
  from d obtain s1 where 1: "InvalidApiKeyError m =
      Inr \<lparr>name = ''InvalidApiKeyError'', code = ''INVALID_API_KEY'', message = s1\<rparr>"
    unfolding InvalidApiKeyError_def by blast
  from d obtain s2 where 2: "NetworkError m =
      Inr \<lparr>name = ''NetworkError'', code = ''NETWORK_ERROR'', message = s2\<rparr>"
    unfolding NetworkError_def by blast
  from d obtain s3 where 3: "ServerError m =
      Inr \<lparr>name = ''ServerError'', code = ''SERVER_ERROR'', message = s3\<rparr>"
    unfolding ServerError_def by blast
  from d obtain s4 where 4: "InvalidUrlError m =
      Inr \<lparr>name = ''InvalidUrlError'', code = ''INVALID_URL'', message = s4\<rparr>"
    unfolding InvalidUrlError_def by blast
  from new_DynalinksError_total [OF stringable_js_or [OF assms]] obtain s5
    where 5: "new_DynalinksError ''UNKNOWN'' (js_or m (Str ''Unknown error occurred'')) =
      Inr \<lparr>name = ''DynalinksError'', code = ''UNKNOWN'', message = s5\<rparr>" by blast
  from f obtain t1 where 6: "NotConfiguredError =
      Inr \<lparr>name = ''NotConfiguredError'', code = ''NOT_CONFIGURED'', message = t1\<rparr>"
    unfolding NotConfiguredError_def by blast
  from f obtain t2 where 7: "SimulatorError =
      Inr \<lparr>name = ''SimulatorError'', code = ''SIMULATOR'', message = t2\<rparr>"
    unfolding SimulatorError_def by blast
  from f obtain t3 where 8: "InvalidResponseError =
      Inr \<lparr>name = ''InvalidResponseError'', code = ''INVALID_RESPONSE'', message = t3\<rparr>"
    unfolding InvalidResponseError_def by blast
  from f obtain t4 where 9: "NoMatchError =
      Inr \<lparr>name = ''NoMatchError'', code = ''NO_MATCH'', message = t4\<rparr>"
    unfolding NoMatchError_def by blast
  from f obtain t5 where 10: "InstallReferrerUnavailableError =
      Inr \<lparr>name = ''InstallReferrerUnavailableError'', code = ''INSTALL_REFERRER_UNAVAILABLE'',
           message = t5\<rparr>"
    unfolding InstallReferrerUnavailableError_def by blast
  from f obtain t6 where 11: "InstallReferrerTimeoutError =
      Inr \<lparr>name = ''InstallReferrerTimeoutError'', code = ''INSTALL_REFERRER_TIMEOUT'',
           message = t6\<rparr>"
    unfolding InstallReferrerTimeoutError_def by blast
  show ?thesis
    by (simp add: fromNativeError_def 1 2 3 4 5 6 7 8 9 10 11 taxonomy_def native_codes_def)
qed

subsection \<open>The catch block\<close>

lemma catch_native_defined:
  "e \<noteq> Undefined \<Longrightarrow> e \<noteq> Null \<Longrightarrow>
   catch_native e =
     (case fromNativeError (js_or (read e ''code'') (Str ''UNKNOWN'')) (read e ''message'') of
        Inl thrown \<Rightarrow> RejectedRaw thrown
      | Inr err \<Rightarrow> RejectedWith err)"
  by (simp add: catch_native_def get_defined bind_js_def)

lemma catch_native_convertible:
  assumes "convertible e"
  shows "\<exists>err. catch_native e = RejectedWith err \<and> code err \<in> set taxonomy"
proof -
  from assms have d: "e \<noteq> Undefined" "e \<noteq> Null" and s: "stringable (read e ''message'')"
    by (simp_all add: convertible_def)
  from fromNativeError_total [OF s] obtain err
    where "fromNativeError (js_or (read e ''code'') (Str ''UNKNOWN'')) (read e ''message'') = Inr err"
      and "code err \<in> set taxonomy" by blast
  then show ?thesis by (simp add: catch_native_defined [OF d])
qed

lemma convertible_TypeError: "convertible (TypeError m)"
  by (simp add: convertible_def TypeError_def stringable_def)

subsection \<open>The result normalizer on a payload that is not nullish\<close>

lemma link_entries_defined:
  assumes "p \<noteq> Undefined" "p \<noteq> Null" "read p ''link'' \<noteq> Undefined" "read p ''link'' \<noteq> Null"
  shows "link_entries p fs = Inr (map (\<lambda>(field, key). (field, read (read p ''link'') key)) fs)"
  using assms by (induction fs) (auto simp add: get_defined bind_js_def)

lemma parseResult_defined:
  assumes "p \<noteq> Undefined" "p \<noteq> Null"
  shows "parseResult p d =
    Inr (Obj [(''matched'', js_or (read p ''matched'') (Bool False)),
              (''confidence'', read p ''confidence''),
              (''matchScore'', read p ''match_score''),
              (''link'', if truthy (read p ''link'')
                         then Obj (map (\<lambda>(field, key). (field, read (read p ''link'') key)) link_fields)
                         else Undefined),
              (''isDeferred'', Bool d)])"
proof (cases "truthy (read p ''link'')")
  case True
  with truthy_defined have "read p ''link'' \<noteq> Undefined" "read p ''link'' \<noteq> Null" by blast+
  from link_entries_defined [OF assms this] True show ?thesis
    by (simp add: parseResult_def get_defined [OF assms] bind_js_def)
next
  case False
  then show ?thesis by (simp add: parseResult_def get_defined [OF assms] bind_js_def)
qed

lemma parseResult_nullish:
  "p = Undefined \<or> p = Null \<Longrightarrow> \<exists>m. parseResult p d = Inl (TypeError m)"
  by (auto simp add: parseResult_def get_def bind_js_def)

lemma parseResult_shape:
  assumes "parseResult p d = Inr r"
  shows "is_DeepLinkResult d r"
proof (cases "p = Undefined \<or> p = Null")
  case True
  from parseResult_nullish [OF True, of d] assms show ?thesis by auto
next
  case False
  with assms show ?thesis
    by (auto simp add: parseResult_defined is_DeepLinkResult_def is_LinkData_def comp_def
          case_prod_unfold)
qed

subsection \<open>The operations\<close>

lemma parse_settled_typed:
  assumes "settles_convertibly s"
  shows "typed_or (is_DeepLinkResult d) (parse_settled s d)"
proof (cases s)
  case (Rejected e)
  with assms have "convertible e" by (simp add: settles_convertibly_def)
  from catch_native_convertible [OF this] Rejected show ?thesis
    by (auto simp add: parse_settled_def typed_or_def)
next
  case (Resolved p)
  show ?thesis
  proof (cases "parseResult p d")
    case (Inr r)
    with parseResult_shape [OF Inr] Resolved show ?thesis
      by (simp add: parse_settled_def typed_or_def)
  next
    case (Inl x)
    have "p = Undefined \<or> p = Null"
    proof (rule ccontr)
      assume "\<not> ?thesis"
      then have "p \<noteq> Undefined" "p \<noteq> Null" by simp_all
      from parseResult_defined [OF this, of d] Inl show False by simp
    qed
    from parseResult_nullish [OF this, of d] Inl obtain m where "x = TypeError m" by auto
    with catch_native_convertible [OF convertible_TypeError, of m] Inl Resolved show ?thesis
      by (auto simp add: parse_settled_def typed_or_def)
  qed
qed

lemma parse_settled_fulfilled:
  assumes "parse_settled s d = Fulfilled r"
  shows "read r ''isDeferred'' = Bool d"
proof (cases s)
  case (Rejected e)
  with assms show ?thesis
    by (simp add: parse_settled_def catch_native_def split: sum.splits)
next
  case (Resolved q)
  with assms have "parseResult q d = Inr r"
    by (simp add: parse_settled_def catch_native_def split: sum.splits)
  from parseResult_shape [OF this] show ?thesis
    by (simp add: is_DeepLinkResult_def split: jsval.splits)
qed

lemma parse_settled_resolved:
  assumes "p \<noteq> Undefined" "p \<noteq> Null"
  shows "\<exists>r. parse_settled (Resolved p) d = Fulfilled r \<and> read r ''isDeferred'' = Bool d"
  by (simp add: parse_settled_def parseResult_defined [OF assms])

lemma parse_settled_nullish:
  "p = Undefined \<or> p = Null \<Longrightarrow>
   \<exists>m. parseResult p d = Inl (TypeError m) \<and>
       parse_settled (Resolved p) d =
         RejectedWith \<lparr>name = ''DynalinksError'', code = ''UNKNOWN'', message = m\<rparr>"
  by (auto simp add: parse_settled_def parseResult_def get_def bind_js_def TypeError_def
        catch_native_def js_or_def fromNativeError_def new_DynalinksError_def)

lemma configure_defined:
  assumes "config \<noteq> Undefined" "config \<noteq> Null"
  shows "configure M config =
    ([ConfigureCall (Obj [(''clientAPIKey'', read config ''clientAPIKey''),
                          (''baseURL'', read config ''baseURL''),
                          (''logLevel'', js_or (read config ''logLevel'') (Str ''error'')),
                          (''allowSimulator'', js_or (read config ''allowSimulator'') (Bool False))])],
     (case native_configure M
             (Obj [(''clientAPIKey'', read config ''clientAPIKey''),
                   (''baseURL'', read config ''baseURL''),
                   (''logLevel'', js_or (read config ''logLevel'') (Str ''error'')),
                   (''allowSimulator'', js_or (read config ''allowSimulator'') (Bool False))]) of
        Resolved v \<Rightarrow> Fulfilled Undefined
      | Rejected error \<Rightarrow> catch_native error))"
  by (simp add: configure_def get_defined [OF assms] bind_js_def)

lemma configure_nullish:
  "config = Undefined \<or> config = Null \<Longrightarrow>
   \<exists>m. configure M config = ([], catch_native (TypeError m))"
  by (auto simp add: configure_def get_def bind_js_def)

lemma configure_typed:
  assumes "\<forall>p. settles_convertibly (native_configure M p)"
  shows "typed_or (\<lambda>v. v = Undefined) (snd (configure M config))"
proof (cases "config = Undefined \<or> config = Null")
  case True
  from configure_nullish [OF True, of M] obtain m
    where "configure M config = ([], catch_native (TypeError m))" ..
  with catch_native_convertible [OF convertible_TypeError, of m] show ?thesis
    by (auto simp add: typed_or_def)
next
  case False
  then have d: "config \<noteq> Undefined" "config \<noteq> Null" by simp_all
  let ?p = "Obj [(''clientAPIKey'', read config ''clientAPIKey''),
                 (''baseURL'', read config ''baseURL''),
                 (''logLevel'', js_or (read config ''logLevel'') (Str ''error'')),
                 (''allowSimulator'', js_or (read config ''allowSimulator'') (Bool False))]"
  from assms have s: "settles_convertibly (native_configure M ?p)" by blast
  show ?thesis
  proof (cases "native_configure M ?p")
    case (Resolved v)
    then show ?thesis by (simp add: configure_defined [OF d] typed_or_def)
  next
    case (Rejected e)
    with s have "convertible e" by (simp add: settles_convertibly_def)
    from catch_native_convertible [OF this] Rejected show ?thesis
      by (auto simp add: configure_defined [OF d] typed_or_def)
  qed
qed

section \<open>The contract of the facade\<close>

text \<open>
  Against C1 as stated: a rejection value that is \<open>null\<close> or \<open>undefined\<close> makes the
  \<open>catch\<close> block itself throw while it reads \<open>error.code\<close>, and a message object that
  shadows \<open>toString\<close> makes the error constructor throw; in both cases the caller receives
  the engine's TypeError, not a typed error.
\<close>

theorem nullish_rejection_escapes:
  "snd (configure (rejecting_module Null) (Obj [(''clientAPIKey'', Str ''k'')])) =
     RejectedRaw (JSError ''TypeError'' ''Cannot read property code of null'') \<and>
   snd (checkForDeferredDeepLink (rejecting_module Undefined)) =
     RejectedRaw (JSError ''TypeError'' ''Cannot read property code of undefined'') \<and>
   snd (resolveLink
          (rejecting_module
             (Obj [(''code'', Str ''NETWORK_ERROR''), (''message'', Obj [(''toString'', Null)])]))
          (Str ''https://example.dynalinks.app/a'')) =
     RejectedRaw (JSError ''TypeError'' ''Cannot convert object to primitive value'')"
  by (simp add: configure_def checkForDeferredDeepLink_def resolveLink_def parse_settled_def
        rejecting_module_def catch_native_def get_def TypeError_def js_or_def
        fromNativeError_def error_ctor_defs)

text \<open>
  C1, amended: for each of the three operations, whatever payload the native module
  resolves with, and whatever it rejects with as long as the rejection value is one the
  catch block can convert (not \<open>null\<close> or \<open>undefined\<close>, its message not an object that
  shadows \<open>toString\<close>), the operation either fulfils with a normalized value (\<open>undefined\<close>
  for \<open>configure\<close>, a value of the \<open>DeepLinkResult\<close> shape carrying the caller's flag for
  the other two) or rejects with one typed error whose code belongs to the taxonomy. A
  payload on which \<open>parseResult\<close> throws (\<open>null\<close> or \<open>undefined\<close>) is converted as well:
  the operation rejects with the \<open>UNKNOWN\<close> variant, whose message is the message of the
  TypeError thrown.
\<close>

theorem facade_typed_outcomes:
  "((\<forall>p. settles_convertibly (native_configure M p)) \<longrightarrow>
      typed_or (\<lambda>v. v = Undefined) (snd (configure M config))) \<and>
   (settles_convertibly (native_checkForDeferredDeepLink M) \<longrightarrow>
      typed_or (is_DeepLinkResult True) (snd (checkForDeferredDeepLink M))) \<and>
   (settles_convertibly (native_resolveLink M url) \<longrightarrow>
      typed_or (is_DeepLinkResult False) (snd (resolveLink M url))) \<and>
   ((p = Undefined \<or> p = Null) \<and> native_checkForDeferredDeepLink M = Resolved p \<longrightarrow>
      (\<exists>m. parseResult p True = Inl (TypeError m) \<and>
           snd (checkForDeferredDeepLink M) =
             RejectedWith \<lparr>name = ''DynalinksError'', code = ''UNKNOWN'', message = m\<rparr>)) \<and>
   ((p = Undefined \<or> p = Null) \<and> native_resolveLink M url = Resolved p \<longrightarrow>
      (\<exists>m. parseResult p False = Inl (TypeError m) \<and>
           snd (resolveLink M url) =
             RejectedWith \<lparr>name = ''DynalinksError'', code = ''UNKNOWN'', message = m\<rparr>))"
proof (intro conjI impI)
  assume "\<forall>p. settles_convertibly (native_configure M p)"
  then show "typed_or (\<lambda>v. v = Undefined) (snd (configure M config))"
    by (rule configure_typed)
next
  assume "settles_convertibly (native_checkForDeferredDeepLink M)"
  then show "typed_or (is_DeepLinkResult True) (snd (checkForDeferredDeepLink M))"
    by (simp add: parse_settled_typed checkForDeferredDeepLink_def)
next
  assume "settles_convertibly (native_resolveLink M url)"
  then show "typed_or (is_DeepLinkResult False) (snd (resolveLink M url))"
    by (simp add: parse_settled_typed resolveLink_def)
next
  assume "(p = Undefined \<or> p = Null) \<and> native_checkForDeferredDeepLink M = Resolved p"
  then have n: "p = Undefined \<or> p = Null" and r: "native_checkForDeferredDeepLink M = Resolved p"
    by simp_all
  from parse_settled_nullish [OF n, of True] r
  show "\<exists>m. parseResult p True = Inl (TypeError m) \<and>
           snd (checkForDeferredDeepLink M) =
             RejectedWith \<lparr>name = ''DynalinksError'', code = ''UNKNOWN'', message = m\<rparr>"
    by (simp add: checkForDeferredDeepLink_def)
next
  assume "(p = Undefined \<or> p = Null) \<and> native_resolveLink M url = Resolved p"
  then have n: "p = Undefined \<or> p = Null" and r: "native_resolveLink M url = Resolved p"
    by simp_all
  from parse_settled_nullish [OF n, of False] r
  show "\<exists>m. parseResult p False = Inl (TypeError m) \<and>
           snd (resolveLink M url) =
             RejectedWith \<lparr>name = ''DynalinksError'', code = ''UNKNOWN'', message = m\<rparr>"
    by (simp add: resolveLink_def)
qed

text \<open>
  The amended C1 at concrete native modules: a coded rejection of \<open>configure\<close>, a resolved
  check, a rejection of \<open>resolveLink\<close> with a bare string, and a module whose link
  operations resolve with \<open>null\<close> and \<open>undefined\<close>.
\<close>

theorem facade_typed_outcomes_witness:
  "typed_or (\<lambda>v. v = Undefined)
     (snd (configure
             (rejecting_module (Obj [(''code'', Str ''SERVER_ERROR''), (''message'', Str ''HTTP 500'')]))
             (Obj [(''clientAPIKey'', Str ''k'')]))) \<and>
   typed_or (is_DeepLinkResult True) (snd (checkForDeferredDeepLink resolving_module)) \<and>
   typed_or (is_DeepLinkResult False)
     (snd (resolveLink (rejecting_module (Str ''boom'')) (Str ''https://example.dynalinks.app/a''))) \<and>
   (\<exists>m. snd (checkForDeferredDeepLink
               \<lparr>native_configure = (\<lambda>p. Resolved Undefined),
                native_checkForDeferredDeepLink = Resolved Null,
                native_resolveLink = (\<lambda>u. Resolved Null)\<rparr>) =
          RejectedWith \<lparr>name = ''DynalinksError'', code = ''UNKNOWN'', message = m\<rparr>) \<and>
   (\<exists>m. snd (resolveLink
               \<lparr>native_configure = (\<lambda>p. Resolved Undefined),
                native_checkForDeferredDeepLink = Resolved Undefined,
                native_resolveLink = (\<lambda>u. Resolved Undefined)\<rparr>
               (Str ''https://example.dynalinks.app/a'')) =
          RejectedWith \<lparr>name = ''DynalinksError'', code = ''UNKNOWN'', message = m\<rparr>)"
proof -
  let ?e = "Obj [(''code'', Str ''SERVER_ERROR''), (''message'', Str ''HTTP 500'')]"
  let ?u = "Str ''https://example.dynalinks.app/a''"
  let ?N = "\<lparr>native_configure = (\<lambda>p. Resolved Undefined),
             native_checkForDeferredDeepLink = Resolved Null,
             native_resolveLink = (\<lambda>u. Resolved Null)\<rparr>"
  let ?U = "\<lparr>native_configure = (\<lambda>p. Resolved Undefined),
             native_checkForDeferredDeepLink = Resolved Undefined,
             native_resolveLink = (\<lambda>u. Resolved Undefined)\<rparr>"
  have 1: "\<forall>p. settles_convertibly (native_configure (rejecting_module ?e) p)"
    by (simp add: rejecting_module_def settles_convertibly_def convertible_def stringable_def)
  have 2: "settles_convertibly (native_checkForDeferredDeepLink resolving_module)"
    by (simp add: resolving_module_def settles_convertibly_def)
  have 3: "settles_convertibly (native_resolveLink (rejecting_module (Str ''boom'')) ?u)"
    by (simp add: rejecting_module_def settles_convertibly_def convertible_def stringable_def)
  have 4: "(Null = Undefined \<or> Null = Null) \<and> native_checkForDeferredDeepLink ?N = Resolved Null"
    by simp
  have 5: "(Undefined = Undefined \<or> Undefined = Null) \<and> native_resolveLink ?U ?u = Resolved Undefined"
    by simp
  from facade_typed_outcomes [of "rejecting_module ?e" "Obj [(''clientAPIKey'', Str ''k'')]"] 1
  have a: "typed_or (\<lambda>v. v = Undefined)
      (snd (configure (rejecting_module ?e) (Obj [(''clientAPIKey'', Str ''k'')])))"
    by blast
  from facade_typed_outcomes [of resolving_module] 2
  have b: "typed_or (is_DeepLinkResult True) (snd (checkForDeferredDeepLink resolving_module))"
    by blast
  from facade_typed_outcomes [of "rejecting_module (Str ''boom'')" _ ?u] 3
  have c: "typed_or (is_DeepLinkResult False) (snd (resolveLink (rejecting_module (Str ''boom'')) ?u))"
    by blast
  from facade_typed_outcomes [of ?N Null ?u Null] 4
  have d: "\<exists>m. snd (checkForDeferredDeepLink ?N) =
          RejectedWith \<lparr>name = ''DynalinksError'', code = ''UNKNOWN'', message = m\<rparr>"
    by blast
  from facade_typed_outcomes [of ?U Null ?u Undefined] 5
  have e: "\<exists>m. snd (resolveLink ?U ?u) =
          RejectedWith \<lparr>name = ''DynalinksError'', code = ''UNKNOWN'', message = m\<rparr>"
    by blast
  from a b c d e show ?thesis by simp
qed

section \<open>The error normalizer\<close>

text \<open>
  C2: for each of the ten codes of the fixed table and every message string,
  \<open>fromNativeError\<close> returns a typed error whose \<open>code\<close> is that same string, and, for the
  four variants that take a dynamic message, whose \<open>message\<close> is the supplied string
  verbatim (the empty string included); \<open>INVALID_INTENT\<close> is accepted as a synonym and
  yields the \<open>InvalidUrlError\<close> variant with code \<open>INVALID_URL\<close>.
\<close>

theorem fromNativeError_table:
  "(c \<in> set native_codes \<longrightarrow>
      (\<exists>e. fromNativeError (Str c) (Str m) = Inr e \<and> code e = c \<and>
           (c \<in> set dynamic_codes \<longrightarrow> message e = m))) \<and>
   fromNativeError (Str ''INVALID_INTENT'') (Str m) =
     Inr \<lparr>name = ''InvalidUrlError'', code = ''INVALID_URL'', message = m\<rparr>"
  by (auto simp add: native_codes_def dynamic_codes_def fromNativeError_def error_ctor_defs)

text \<open>C2 at the code \<open>NETWORK_ERROR\<close>, a code of the table with a dynamic message.\<close>

theorem fromNativeError_table_witness:
  "\<exists>e. fromNativeError (Str ''NETWORK_ERROR'') (Str ''timed out'') = Inr e \<and>
       code e = ''NETWORK_ERROR'' \<and> message e = ''timed out''"
  using fromNativeError_table [of "''NETWORK_ERROR''" "''timed out''"]
  by (simp add: native_codes_def dynamic_codes_def)

section \<open>Configuration\<close>

text \<open>
  Against C3 as stated: \<open>configure\<close> with the empty API key does call the native module,
  with the empty key in the payload, and fulfils when that call resolves.
\<close>

theorem empty_key_reaches_native_module:
  "configure resolving_module (Obj [(''clientAPIKey'', Str [])]) =
     ([ConfigureCall (Obj [(''clientAPIKey'', Str []), (''baseURL'', Undefined),
                           (''logLevel'', Str ''error''), (''allowSimulator'', Bool False)])],
      Fulfilled Undefined)"
  by (simp add: configure_def resolving_module_def get_def bind_js_def js_or_def)

text \<open>
  C3, amended: the facade validates nothing itself. For a configuration whose
  \<open>clientAPIKey\<close> is any string, the empty and the blank ones included, \<open>configure\<close> makes
  exactly one call to the native module and forwards the key as given; it rejects with
  the \<open>INVALID_API_KEY\<close> variant, carrying the native message, when the native module
  rejects that call with the code \<open>INVALID_API_KEY\<close>, and it fulfils when the call resolves.
\<close>

theorem configure_defers_key_validation:
  "map_of kvs ''clientAPIKey'' = Some (Str k) \<longrightarrow>
     (\<exists>payload. fst (configure M (Obj kvs)) = [ConfigureCall payload] \<and>
        read payload ''clientAPIKey'' = Str k \<and>
        (\<forall>e. native_configure M payload = Rejected e \<and> e \<noteq> Undefined \<and> e \<noteq> Null \<and>
             read e ''code'' = Str ''INVALID_API_KEY'' \<and> read e ''message'' = Str m \<longrightarrow>
             snd (configure M (Obj kvs)) =
               RejectedWith \<lparr>name = ''InvalidApiKeyError'', code = ''INVALID_API_KEY'', message = m\<rparr>) \<and>
        (\<forall>v. native_configure M payload = Resolved v \<longrightarrow>
             snd (configure M (Obj kvs)) = Fulfilled Undefined))"
  by (auto simp add: configure_defined catch_native_defined js_or_def fromNativeError_def
        error_ctor_defs)

text \<open>
  The amended C3 at the empty key, once with a native module that rejects it the way the
  Android module does, once with one that resolves.
\<close>

theorem configure_defers_key_validation_witness:
  "(\<exists>payload.
      fst (configure
             (rejecting_module
                (Obj [(''code'', Str ''INVALID_API_KEY''),
                      (''message'', Str ''Missing or empty clientAPIKey'')]))
             (Obj [(''clientAPIKey'', Str [])])) = [ConfigureCall payload] \<and>
      read payload ''clientAPIKey'' = Str []) \<and>
   snd (configure
          (rejecting_module
             (Obj [(''code'', Str ''INVALID_API_KEY''),
                   (''message'', Str ''Missing or empty clientAPIKey'')]))
          (Obj [(''clientAPIKey'', Str [])])) =
     RejectedWith \<lparr>name = ''InvalidApiKeyError'', code = ''INVALID_API_KEY'',
                   message = ''Missing or empty clientAPIKey''\<rparr> \<and>
   snd (configure resolving_module (Obj [(''clientAPIKey'', Str [])])) = Fulfilled Undefined"
proof -
  let ?e = "Obj [(''code'', Str ''INVALID_API_KEY''),
                 (''message'', Str ''Missing or empty clientAPIKey'')]"
  let ?M = "rejecting_module ?e"
  let ?c = "Obj [(''clientAPIKey'', Str [])]"
  let ?err = "\<lparr>name = ''InvalidApiKeyError'', code = ''INVALID_API_KEY'',
               message = ''Missing or empty clientAPIKey''\<rparr>"
  have h: "map_of [(''clientAPIKey'', Str [])] ''clientAPIKey'' = Some (Str [])" by simp
  from configure_defers_key_validation
         [of "[(''clientAPIKey'', Str [])]" "[]" ?M "''Missing or empty clientAPIKey''"] h
  obtain payload where p: "fst (configure ?M ?c) = [ConfigureCall payload]"
      "read payload ''clientAPIKey'' = Str []"
      "\<forall>e. native_configure ?M payload = Rejected e \<and> e \<noteq> Undefined \<and> e \<noteq> Null \<and>
           read e ''code'' = Str ''INVALID_API_KEY'' \<and>
           read e ''message'' = Str ''Missing or empty clientAPIKey'' \<longrightarrow>
           snd (configure ?M ?c) = RejectedWith ?err"
    by blast
  have "native_configure ?M payload = Rejected ?e \<and> ?e \<noteq> Undefined \<and> ?e \<noteq> Null \<and>
        read ?e ''code'' = Str ''INVALID_API_KEY'' \<and>
        read ?e ''message'' = Str ''Missing or empty clientAPIKey''"
    by (simp add: rejecting_module_def)
  with p(3) have r: "snd (configure ?M ?c) = RejectedWith ?err" by blast
  from configure_defers_key_validation [of "[(''clientAPIKey'', Str [])]" "[]" resolving_module] h
  obtain payload' where q:
      "\<forall>v. native_configure resolving_module payload' = Resolved v \<longrightarrow>
           snd (configure resolving_module ?c) = Fulfilled Undefined"
    by blast
  have "native_configure resolving_module payload' = Resolved Undefined"
    by (simp add: resolving_module_def)
  with q have f: "snd (configure resolving_module ?c) = Fulfilled Undefined" by blast
  from p(1,2) r f show ?thesis by blast
qed

text \<open>
  Against C4 as stated: the payload that \<open>configure\<close> forwards for \<open>{clientAPIKey: "k"}\<close>
  does contain the key \<open>baseURL\<close>; its value is \<open>undefined\<close>.
\<close>

theorem baseURL_key_present:
  "fst (configure resolving_module (Obj [(''clientAPIKey'', Str ''k'')])) =
     [ConfigureCall (Obj [(''clientAPIKey'', Str ''k''), (''baseURL'', Undefined),
                          (''logLevel'', Str ''error''), (''allowSimulator'', Bool False)])] \<and>
   has_key (Obj [(''clientAPIKey'', Str ''k''), (''baseURL'', Undefined),
                 (''logLevel'', Str ''error''), (''allowSimulator'', Bool False)]) ''baseURL''"
  by (simp add: configure_def get_def bind_js_def js_or_def)

text \<open>
  C4, amended: for every configuration object with a non-empty \<open>clientAPIKey\<close> and with
  \<open>logLevel\<close>, \<open>allowSimulator\<close> and \<open>baseURL\<close> all absent, \<open>configure\<close> forwards to the
  native module exactly the payload in which \<open>logLevel\<close> is \<open>"error"\<close>, \<open>allowSimulator\<close>
  is \<open>false\<close>, and \<open>baseURL\<close> is present with the value \<open>undefined\<close>: no empty string and
  no default URL is put in its place.
\<close>

theorem configure_defaults:
  "map_of kvs ''clientAPIKey'' = Some (Str k) \<and> k \<noteq> [] \<and>
   ''logLevel'' \<notin> fst ` set kvs \<and> ''allowSimulator'' \<notin> fst ` set kvs \<and>
   ''baseURL'' \<notin> fst ` set kvs \<longrightarrow>
   fst (configure M (Obj kvs)) =
     [ConfigureCall (Obj [(''clientAPIKey'', Str k), (''baseURL'', Undefined),
                          (''logLevel'', Str ''error''), (''allowSimulator'', Bool False)])]"
  by (auto simp add: configure_defined js_or_def map_of_eq_None_iff [THEN iffD2])

text \<open>The amended C4 at \<open>{clientAPIKey: "k"}\<close>.\<close>

theorem configure_defaults_witness:
  "fst (configure resolving_module (Obj [(''clientAPIKey'', Str ''k'')])) =
     [ConfigureCall (Obj [(''clientAPIKey'', Str ''k''), (''baseURL'', Undefined),
                          (''logLevel'', Str ''error''), (''allowSimulator'', Bool False)])]"
  using configure_defaults [of "[(''clientAPIKey'', Str ''k'')]" "''k''" resolving_module]
  by simp

section \<open>The result normalizer\<close>

text \<open>
  C5: when the native result carries a \<open>link\<close> sub-object, \<open>parseResult\<close> rebuilds
  \<open>LinkData\<close> by the fixed one-to-one renaming, written out here pair by pair: the link
  of the result is the object of exactly the fourteen camelCase fields, each holding
  what the native link object holds under the corresponding snake_case key
  (\<open>shortened_path\<close> for \<open>shortenedPath\<close>, \<open>full_url\<close> for \<open>fullUrl\<close>, and so on), and a
  field whose native key is absent reads as \<open>undefined\<close> (absent: not \<open>null\<close>, not the
  empty string, not zero). In particular
  \<open>({matched: true, link: {id: "abc", deep_link_value: "product/42"}}, false)\<close> gives
  \<open>link.id = "abc"\<close>, \<open>link.deepLinkValue = "product/42"\<close>, \<open>isDeferred = false\<close> and every
  other link field \<open>undefined\<close>; and a link object holding only \<open>id\<close> does not throw and
  gives a \<open>LinkData\<close> in which only \<open>id\<close> is set.
\<close>

theorem parseResult_link_mapping:
  "(map_of r ''link'' = Some (Obj l) \<longrightarrow>
      (\<exists>res. parseResult (Obj r) d = Inr res \<and>
         read res ''link'' =
           Obj [(''id'', read (Obj l) ''id''),
                (''name'', read (Obj l) ''name''),
                (''path'', read (Obj l) ''path''),
                (''shortenedPath'', read (Obj l) ''shortened_path''),
                (''url'', read (Obj l) ''url''),
                (''fullUrl'', read (Obj l) ''full_url''),
                (''deepLinkValue'', read (Obj l) ''deep_link_value''),
                (''iosFallbackUrl'', read (Obj l) ''ios_fallback_url''),
                (''androidFallbackUrl'', read (Obj l) ''android_fallback_url''),
                (''enableForcedRedirect'', read (Obj l) ''enable_forced_redirect''),
                (''socialTitle'', read (Obj l) ''social_title''),
                (''socialDescription'', read (Obj l) ''social_description''),
                (''socialImageUrl'', read (Obj l) ''social_image_url''),
                (''clicks'', read (Obj l) ''clicks'')] \<and>
         (\<forall>(field, key) \<in> set
               [(''id'', ''id''),
                (''name'', ''name''),
                (''path'', ''path''),
                (''shortenedPath'', ''shortened_path''),
                (''url'', ''url''),
                (''fullUrl'', ''full_url''),
                (''deepLinkValue'', ''deep_link_value''),
                (''iosFallbackUrl'', ''ios_fallback_url''),
                (''androidFallbackUrl'', ''android_fallback_url''),
                (''enableForcedRedirect'', ''enable_forced_redirect''),
                (''socialTitle'', ''social_title''),
                (''socialDescription'', ''social_description''),
                (''socialImageUrl'', ''social_image_url''),
                (''clicks'', ''clicks'')].
            key \<notin> fst ` set l \<longrightarrow> read (read res ''link'') field = Undefined))) \<and>
   parseResult (Obj [(''matched'', Bool True),
                     (''link'', Obj [(''id'', Str ''abc''), (''deep_link_value'', Str ''product/42'')])])
       False =
     Inr (Obj [(''matched'', Bool True), (''confidence'', Undefined), (''matchScore'', Undefined),
               (''link'', Obj [(''id'', Str ''abc''), (''name'', Undefined), (''path'', Undefined),
                              (''shortenedPath'', Undefined), (''url'', Undefined),
                              (''fullUrl'', Undefined), (''deepLinkValue'', Str ''product/42''),
                              (''iosFallbackUrl'', Undefined), (''androidFallbackUrl'', Undefined),
                              (''enableForcedRedirect'', Undefined), (''socialTitle'', Undefined),
                              (''socialDescription'', Undefined), (''socialImageUrl'', Undefined),
                              (''clicks'', Undefined)]),
               (''isDeferred'', Bool False)]) \<and>
   parseResult (Obj [(''matched'', Bool True), (''link'', Obj [(''id'', Str ''abc'')])]) False =
     Inr (Obj [(''matched'', Bool True), (''confidence'', Undefined), (''matchScore'', Undefined),
               (''link'', Obj [(''id'', Str ''abc''), (''name'', Undefined), (''path'', Undefined),
                              (''shortenedPath'', Undefined), (''url'', Undefined),
                              (''fullUrl'', Undefined), (''deepLinkValue'', Undefined),
                              (''iosFallbackUrl'', Undefined), (''androidFallbackUrl'', Undefined),
                              (''enableForcedRedirect'', Undefined), (''socialTitle'', Undefined),
                              (''socialDescription'', Undefined), (''socialImageUrl'', Undefined),
                              (''clicks'', Undefined)]),
               (''isDeferred'', Bool False)])"
proof (intro conjI impI)
  assume h: "map_of r ''link'' = Some (Obj l)"
  let ?ld = "Obj [(''id'', read (Obj l) ''id''),
                (''name'', read (Obj l) ''name''),
                (''path'', read (Obj l) ''path''),
                (''shortenedPath'', read (Obj l) ''shortened_path''),
                (''url'', read (Obj l) ''url''),
                (''fullUrl'', read (Obj l) ''full_url''),
                (''deepLinkValue'', read (Obj l) ''deep_link_value''),
                (''iosFallbackUrl'', read (Obj l) ''ios_fallback_url''),
                (''androidFallbackUrl'', read (Obj l) ''android_fallback_url''),
                (''enableForcedRedirect'', read (Obj l) ''enable_forced_redirect''),
                (''socialTitle'', read (Obj l) ''social_title''),
                (''socialDescription'', read (Obj l) ''social_description''),
                (''socialImageUrl'', read (Obj l) ''social_image_url''),
                (''clicks'', read (Obj l) ''clicks'')]"
  let ?res = "Obj [(''matched'', js_or (read (Obj r) ''matched'') (Bool False)),
              (''confidence'', read (Obj r) ''confidence''),
              (''matchScore'', read (Obj r) ''match_score''),
              (''link'', ?ld),
              (''isDeferred'', Bool d)]"
  from h have 1: "parseResult (Obj r) d = Inr ?res"
    by (simp add: parseResult_defined link_fields_def)
  have 2: "read ?res ''link'' = ?ld" by simp
  have 3: "\<forall>(field, key) \<in> set
               [(''id'', ''id''),
                (''name'', ''name''),
                (''path'', ''path''),
                (''shortenedPath'', ''shortened_path''),
                (''url'', ''url''),
                (''fullUrl'', ''full_url''),
                (''deepLinkValue'', ''deep_link_value''),
                (''iosFallbackUrl'', ''ios_fallback_url''),
                (''androidFallbackUrl'', ''android_fallback_url''),
                (''enableForcedRedirect'', ''enable_forced_redirect''),
                (''socialTitle'', ''social_title''),
                (''socialDescription'', ''social_description''),
                (''socialImageUrl'', ''social_image_url''),
                (''clicks'', ''clicks'')].
            key \<notin> fst ` set l \<longrightarrow> read ?ld field = Undefined"
    by (simp add: map_of_eq_None_iff [THEN iffD2])
  show "\<exists>res. parseResult (Obj r) d = Inr res \<and>
         read res ''link'' = ?ld \<and>
         (\<forall>(field, key) \<in> set
               [(''id'', ''id''),
                (''name'', ''name''),
                (''path'', ''path''),
                (''shortenedPath'', ''shortened_path''),
                (''url'', ''url''),
                (''fullUrl'', ''full_url''),
                (''deepLinkValue'', ''deep_link_value''),
                (''iosFallbackUrl'', ''ios_fallback_url''),
                (''androidFallbackUrl'', ''android_fallback_url''),
                (''enableForcedRedirect'', ''enable_forced_redirect''),
                (''socialTitle'', ''social_title''),
                (''socialDescription'', ''social_description''),
                (''socialImageUrl'', ''social_image_url''),
                (''clicks'', ''clicks'')].
            key \<notin> fst ` set l \<longrightarrow> read (read res ''link'') field = Undefined)"
  proof (intro exI [of _ ?res] conjI)
    show "parseResult (Obj r) d = Inr ?res" by (fact 1)
    show "read ?res ''link'' = ?ld" by (fact 2)
    show "\<forall>(field, key) \<in> set
               [(''id'', ''id''),
                (''name'', ''name''),
                (''path'', ''path''),
                (''shortenedPath'', ''shortened_path''),
                (''url'', ''url''),
                (''fullUrl'', ''full_url''),
                (''deepLinkValue'', ''deep_link_value''),
                (''iosFallbackUrl'', ''ios_fallback_url''),
                (''androidFallbackUrl'', ''android_fallback_url''),
                (''enableForcedRedirect'', ''enable_forced_redirect''),
                (''socialTitle'', ''social_title''),
                (''socialDescription'', ''social_description''),
                (''socialImageUrl'', ''social_image_url''),
                (''clicks'', ''clicks'')].
            key \<notin> fst ` set l \<longrightarrow> read (read ?res ''link'') field = Undefined"
      unfolding 2 by (fact 3)
  qed
next
  show "parseResult (Obj [(''matched'', Bool True),
                     (''link'', Obj [(''id'', Str ''abc''), (''deep_link_value'', Str ''product/42'')])])
       False =
     Inr (Obj [(''matched'', Bool True), (''confidence'', Undefined), (''matchScore'', Undefined),
               (''link'', Obj [(''id'', Str ''abc''), (''name'', Undefined), (''path'', Undefined),
                              (''shortenedPath'', Undefined), (''url'', Undefined),
                              (''fullUrl'', Undefined), (''deepLinkValue'', Str ''product/42''),
                              (''iosFallbackUrl'', Undefined), (''androidFallbackUrl'', Undefined),
                              (''enableForcedRedirect'', Undefined), (''socialTitle'', Undefined),
                              (''socialDescription'', Undefined), (''socialImageUrl'', Undefined),
                              (''clicks'', Undefined)]),
               (''isDeferred'', Bool False)])"
    by (simp add: parseResult_defined link_fields_def js_or_def)
next
  show "parseResult (Obj [(''matched'', Bool True), (''link'', Obj [(''id'', Str ''abc'')])]) False =
     Inr (Obj [(''matched'', Bool True), (''confidence'', Undefined), (''matchScore'', Undefined),
               (''link'', Obj [(''id'', Str ''abc''), (''name'', Undefined), (''path'', Undefined),
                              (''shortenedPath'', Undefined), (''url'', Undefined),
                              (''fullUrl'', Undefined), (''deepLinkValue'', Undefined),
                              (''iosFallbackUrl'', Undefined), (''androidFallbackUrl'', Undefined),
                              (''enableForcedRedirect'', Undefined), (''socialTitle'', Undefined),
                              (''socialDescription'', Undefined), (''socialImageUrl'', Undefined),
                              (''clicks'', Undefined)]),
               (''isDeferred'', Bool False)])"
    by (simp add: parseResult_defined link_fields_def js_or_def)
qed

text \<open>
  C5 at the payload of the specification: the renamed field holds the native value, and
  a field with no native key reads as \<open>undefined\<close>.
\<close>

theorem parseResult_link_mapping_witness:
  "\<exists>res. parseResult (Obj [(''matched'', Bool True),
              (''link'', Obj [(''id'', Str ''abc''), (''deep_link_value'', Str ''product/42'')])])
            False = Inr res \<and>
     read (read res ''link'') ''deepLinkValue'' = Str ''product/42'' \<and>
     read (read res ''link'') ''socialImageUrl'' = Undefined"
proof -
  let ?l = "[(''id'', Str ''abc''), (''deep_link_value'', Str ''product/42'')]"
  let ?r = "[(''matched'', Bool True), (''link'', Obj ?l)]"
  have h: "map_of ?r ''link'' = Some (Obj ?l)" by simp
  from parseResult_link_mapping [of ?r ?l False] h
  obtain res where r: "parseResult (Obj ?r) False = Inr res"
    and v: "read res ''link'' =
           Obj [(''id'', read (Obj ?l) ''id''),
                (''name'', read (Obj ?l) ''name''),
                (''path'', read (Obj ?l) ''path''),
                (''shortenedPath'', read (Obj ?l) ''shortened_path''),
                (''url'', read (Obj ?l) ''url''),
                (''fullUrl'', read (Obj ?l) ''full_url''),
                (''deepLinkValue'', read (Obj ?l) ''deep_link_value''),
                (''iosFallbackUrl'', read (Obj ?l) ''ios_fallback_url''),
                (''androidFallbackUrl'', read (Obj ?l) ''android_fallback_url''),
                (''enableForcedRedirect'', read (Obj ?l) ''enable_forced_redirect''),
                (''socialTitle'', read (Obj ?l) ''social_title''),
                (''socialDescription'', read (Obj ?l) ''social_description''),
                (''socialImageUrl'', read (Obj ?l) ''social_image_url''),
                (''clicks'', read (Obj ?l) ''clicks'')]"
    and f: "\<forall>(field, key) \<in> set
               [(''id'', ''id''),
                (''name'', ''name''),
                (''path'', ''path''),
                (''shortenedPath'', ''shortened_path''),
                (''url'', ''url''),
                (''fullUrl'', ''full_url''),
                (''deepLinkValue'', ''deep_link_value''),
                (''iosFallbackUrl'', ''ios_fallback_url''),
                (''androidFallbackUrl'', ''android_fallback_url''),
                (''enableForcedRedirect'', ''enable_forced_redirect''),
                (''socialTitle'', ''social_title''),
                (''socialDescription'', ''social_description''),
                (''socialImageUrl'', ''social_image_url''),
                (''clicks'', ''clicks'')].
            key \<notin> fst ` set ?l \<longrightarrow> read (read res ''link'') field = Undefined"
    by blast
  from v have "read (read res ''link'') ''deepLinkValue'' = Str ''product/42''"
    by simp
  moreover from f have "read (read res ''link'') ''socialImageUrl'' = Undefined"
    by simp
  ultimately show ?thesis using r by blast
qed

text \<open>
  C6: the \<open>isDeferred\<close> field of a result is the flag of the calling operation, whatever
  the payload holds, an \<open>is_deferred\<close> or \<open>isDeferred\<close> entry of its own included. Whenever
  \<open>checkForDeferredDeepLink\<close> fulfils, \<open>isDeferred\<close> is \<open>true\<close>; whenever \<open>resolveLink\<close>
  fulfils, it is \<open>false\<close>; and both do fulfil for every resolved payload other than
  \<open>undefined\<close> and \<open>null\<close>.
\<close>

theorem isDeferred_from_caller:
  "(\<forall>r. snd (checkForDeferredDeepLink M) = Fulfilled r \<longrightarrow> read r ''isDeferred'' = Bool True) \<and>
   (\<forall>r. snd (resolveLink M url) = Fulfilled r \<longrightarrow> read r ''isDeferred'' = Bool False) \<and>
   (p \<noteq> Undefined \<and> p \<noteq> Null \<and> native_checkForDeferredDeepLink M = Resolved p \<longrightarrow>
      (\<exists>r. snd (checkForDeferredDeepLink M) = Fulfilled r \<and> read r ''isDeferred'' = Bool True)) \<and>
   (p \<noteq> Undefined \<and> p \<noteq> Null \<and> native_resolveLink M url = Resolved p \<longrightarrow>
      (\<exists>r. snd (resolveLink M url) = Fulfilled r \<and> read r ''isDeferred'' = Bool False))"
  using parse_settled_fulfilled parse_settled_resolved
  by (auto simp add: checkForDeferredDeepLink_def resolveLink_def)

text \<open>
  C6 at a native module whose payloads carry flags of their own, each the opposite of
  the caller's.
\<close>

theorem isDeferred_from_caller_witness:
  "(\<exists>r. snd (checkForDeferredDeepLink
              \<lparr>native_configure = (\<lambda>p. Resolved Undefined),
               native_checkForDeferredDeepLink =
                 Resolved (Obj [(''matched'', Bool True), (''is_deferred'', Bool False),
                                (''isDeferred'', Bool False)]),
               native_resolveLink =
                 (\<lambda>u. Resolved (Obj [(''matched'', Bool True), (''is_deferred'', Bool False),
                                      (''isDeferred'', Bool False)]))\<rparr>)
          = Fulfilled r \<and> read r ''isDeferred'' = Bool True) \<and>
   (\<exists>r. snd (resolveLink
              \<lparr>native_configure = (\<lambda>p. Resolved Undefined),
               native_checkForDeferredDeepLink =
                 Resolved (Obj [(''matched'', Bool True), (''is_deferred'', Bool True),
                                (''isDeferred'', Bool True)]),
               native_resolveLink =
                 (\<lambda>u. Resolved (Obj [(''matched'', Bool True), (''is_deferred'', Bool True),
                                      (''isDeferred'', Bool True)]))\<rparr>
              (Str ''https://example.dynalinks.app/a''))
          = Fulfilled r \<and> read r ''isDeferred'' = Bool False)"
proof -
  let ?p = "Obj [(''matched'', Bool True), (''is_deferred'', Bool False), (''isDeferred'', Bool False)]"
  let ?q = "Obj [(''matched'', Bool True), (''is_deferred'', Bool True), (''isDeferred'', Bool True)]"
  let ?M = "\<lparr>native_configure = (\<lambda>p. Resolved Undefined),
             native_checkForDeferredDeepLink = Resolved ?p,
             native_resolveLink = (\<lambda>u. Resolved ?p)\<rparr>"
  let ?N = "\<lparr>native_configure = (\<lambda>p. Resolved Undefined),
             native_checkForDeferredDeepLink = Resolved ?q,
             native_resolveLink = (\<lambda>u. Resolved ?q)\<rparr>"
  let ?u = "Str ''https://example.dynalinks.app/a''"
  have "?p \<noteq> Undefined \<and> ?p \<noteq> Null \<and> native_checkForDeferredDeepLink ?M = Resolved ?p"
    by simp
  with isDeferred_from_caller [of ?M ?u ?p]
  have a: "\<exists>r. snd (checkForDeferredDeepLink ?M) = Fulfilled r \<and> read r ''isDeferred'' = Bool True"
    by blast
  have "?q \<noteq> Undefined \<and> ?q \<noteq> Null \<and> native_resolveLink ?N ?u = Resolved ?q"
    by simp
  with isDeferred_from_caller [of ?N ?u ?q]
  have b: "\<exists>r. snd (resolveLink ?N ?u) = Fulfilled r \<and> read r ''isDeferred'' = Bool False"
    by blast
  from a b show ?thesis by blast
qed

section \<open>The catch-all and the fixed messages\<close>

text \<open>
  C7: for every code outside the table (any value that is not one of the ten codes or the
  synonym \<open>INVALID_INTENT\<close>, an absent code included), \<open>fromNativeError\<close> returns the
  \<open>UNKNOWN\<close> variant carrying the original message, and the placeholder
  \<open>Unknown error occurred\<close> when the message is absent or empty. The facade supplies
  \<open>UNKNOWN\<close> as the code whenever the caught error carries no code: the catch block then
  rejects with what \<open>fromNativeError("UNKNOWN", error.message)\<close> gives, in each of the
  three operations.
\<close>

theorem unknown_fallback:
  "(c \<notin> Str ` set accepted_codes \<longrightarrow>
      fromNativeError c (Str m) =
        Inr \<lparr>name = ''DynalinksError'', code = ''UNKNOWN'',
             message = (if m = [] then ''Unknown error occurred'' else m)\<rparr> \<and>
      fromNativeError c Undefined =
        Inr \<lparr>name = ''DynalinksError'', code = ''UNKNOWN'', message = ''Unknown error occurred''\<rparr>) \<and>
   (e \<noteq> Undefined \<and> e \<noteq> Null \<and> read e ''code'' = Undefined \<longrightarrow>
      catch_native e =
        (case fromNativeError (Str ''UNKNOWN'') (read e ''message'') of
           Inl thrown \<Rightarrow> RejectedRaw thrown
         | Inr err \<Rightarrow> RejectedWith err) \<and>
      (native_checkForDeferredDeepLink M = Rejected e \<longrightarrow>
         snd (checkForDeferredDeepLink M) = catch_native e) \<and>
      (native_resolveLink M url = Rejected e \<longrightarrow>
         snd (resolveLink M url) = catch_native e) \<and>
      (config \<noteq> Undefined \<and> config \<noteq> Null \<and> (\<forall>p. native_configure M p = Rejected e) \<longrightarrow>
         snd (configure M config) = catch_native e))"
  by (auto simp add: fromNativeError_unknown new_DynalinksError_def js_or_def bind_js_def
        catch_native_defined checkForDeferredDeepLink_def resolveLink_def parse_settled_def
        configure_defined)

text \<open>
  C7 at an unlisted code, at an absent code with an empty message, and at a native
  module that rejects every call with an error object that has a message and no code.
\<close>

theorem unknown_fallback_witness:
  "fromNativeError (Str ''RATE_LIMITED'') (Str ''slow down'') =
     Inr \<lparr>name = ''DynalinksError'', code = ''UNKNOWN'', message = ''slow down''\<rparr> \<and>
   fromNativeError Undefined (Str []) =
     Inr \<lparr>name = ''DynalinksError'', code = ''UNKNOWN'', message = ''Unknown error occurred''\<rparr> \<and>
   snd (configure (rejecting_module (Obj [(''message'', Str ''boom'')]))
          (Obj [(''clientAPIKey'', Str ''k'')])) =
     RejectedWith \<lparr>name = ''DynalinksError'', code = ''UNKNOWN'', message = ''boom''\<rparr> \<and>
   snd (checkForDeferredDeepLink (rejecting_module (Obj [(''message'', Str ''boom'')]))) =
     RejectedWith \<lparr>name = ''DynalinksError'', code = ''UNKNOWN'', message = ''boom''\<rparr> \<and>
   snd (resolveLink (rejecting_module (Obj [(''message'', Str ''boom'')]))
          (Str ''https://example.dynalinks.app/a'')) =
     RejectedWith \<lparr>name = ''DynalinksError'', code = ''UNKNOWN'', message = ''boom''\<rparr>"
proof -
  let ?e = "Obj [(''message'', Str ''boom'')]"
  let ?M = "rejecting_module ?e"
  let ?u = "Str ''https://example.dynalinks.app/a''"
  let ?c = "Obj [(''clientAPIKey'', Str ''k'')]"
  have a: "Str ''RATE_LIMITED'' \<notin> Str ` set accepted_codes"
    "Undefined \<notin> Str ` set accepted_codes" "Str ''UNKNOWN'' \<notin> Str ` set accepted_codes"
    by (auto simp add: accepted_codes_def native_codes_def)
  have b: "?e \<noteq> Undefined \<and> ?e \<noteq> Null \<and> read ?e ''code'' = Undefined" by simp
  have c: "?c \<noteq> Undefined \<and> ?c \<noteq> Null \<and> (\<forall>p. native_configure ?M p = Rejected ?e)"
    and d: "native_checkForDeferredDeepLink ?M = Rejected ?e"
      "native_resolveLink ?M ?u = Rejected ?e"
    by (simp_all add: rejecting_module_def)
  from unknown_fallback [of "Str ''RATE_LIMITED''" "''slow down''" ?e ?M ?u ?c] a(1) b c d
  have 1: "fromNativeError (Str ''RATE_LIMITED'') (Str ''slow down'') =
     Inr \<lparr>name = ''DynalinksError'', code = ''UNKNOWN'', message = ''slow down''\<rparr>"
    and 3: "snd (configure ?M ?c) = catch_native ?e"
      "snd (checkForDeferredDeepLink ?M) = catch_native ?e"
      "snd (resolveLink ?M ?u) = catch_native ?e"
    and 4: "catch_native ?e =
        (case fromNativeError (Str ''UNKNOWN'') (read ?e ''message'') of
           Inl thrown \<Rightarrow> RejectedRaw thrown
         | Inr err \<Rightarrow> RejectedWith err)"
    by simp_all
  from unknown_fallback [of "Str ''UNKNOWN''" "''boom''" ?e ?M ?u ?c] a(3)
  have 5: "fromNativeError (Str ''UNKNOWN'') (Str ''boom'') =
     Inr \<lparr>name = ''DynalinksError'', code = ''UNKNOWN'', message = ''boom''\<rparr>"
    by simp
  from unknown_fallback [of Undefined "[]" ?e ?M ?u ?c] a(2)
  have 2: "fromNativeError Undefined (Str []) =
     Inr \<lparr>name = ''DynalinksError'', code = ''UNKNOWN'', message = ''Unknown error occurred''\<rparr>"
    by simp
  from 1 2 3 4 5 show ?thesis by simp
qed

text \<open>
  C8: \<open>parseResult({matched: false}, true)\<close> is exactly
  \<open>{matched: false, confidence: undefined, matchScore: undefined, link: undefined,
  isDeferred: true}\<close>; and for every native result object in which \<open>link\<close>, \<open>confidence\<close>
  and \<open>match_score\<close> are absent, \<open>parseResult\<close> does not throw: it returns the result
  whose three corresponding fields are \<open>undefined\<close>.
\<close>

theorem parseResult_tolerates_absent:
  "parseResult (Obj [(''matched'', Bool False)]) True =
     Inr (Obj [(''matched'', Bool False), (''confidence'', Undefined), (''matchScore'', Undefined),
               (''link'', Undefined), (''isDeferred'', Bool True)]) \<and>
   (''link'' \<notin> fst ` set kvs \<and> ''confidence'' \<notin> fst ` set kvs \<and>
    ''match_score'' \<notin> fst ` set kvs \<longrightarrow>
      parseResult (Obj kvs) d =
        Inr (Obj [(''matched'', js_or (read (Obj kvs) ''matched'') (Bool False)),
                  (''confidence'', Undefined), (''matchScore'', Undefined),
                  (''link'', Undefined), (''isDeferred'', Bool d)]))"
proof (intro conjI impI)
  show "parseResult (Obj [(''matched'', Bool False)]) True =
     Inr (Obj [(''matched'', Bool False), (''confidence'', Undefined), (''matchScore'', Undefined),
               (''link'', Undefined), (''isDeferred'', Bool True)])"
    by (simp add: parseResult_defined js_or_def)
next
  assume "''link'' \<notin> fst ` set kvs \<and> ''confidence'' \<notin> fst ` set kvs \<and>
    ''match_score'' \<notin> fst ` set kvs"
  then have "read (Obj kvs) ''link'' = Undefined" "read (Obj kvs) ''confidence'' = Undefined"
    "read (Obj kvs) ''match_score'' = Undefined"
    by (simp_all add: read_absent del: read.simps)
  then show "parseResult (Obj kvs) d =
        Inr (Obj [(''matched'', js_or (read (Obj kvs) ''matched'') (Bool False)),
                  (''confidence'', Undefined), (''matchScore'', Undefined),
                  (''link'', Undefined), (''isDeferred'', Bool d)])"
    by (simp add: parseResult_defined del: read.simps)
qed

text \<open>C8 at the empty native result \<open>{}\<close>, where \<open>matched\<close> is absent too.\<close>

theorem parseResult_tolerates_absent_witness:
  "parseResult (Obj []) False =
     Inr (Obj [(''matched'', Bool False), (''confidence'', Undefined), (''matchScore'', Undefined),
               (''link'', Undefined), (''isDeferred'', Bool False)])"
  using parseResult_tolerates_absent [of "[]" False] by (simp add: js_or_def)

text \<open>
  C9: whatever message the native layer sends with the code \<open>NOT_CONFIGURED\<close>, a string,
  empty or not, or anything else, the error returned carries the one fixed guidance
  message of the \<open>NotConfiguredError\<close> variant.
\<close>

theorem not_configured_fixed_message:
  "fromNativeError (Str ''NOT_CONFIGURED'') m =
     Inr \<lparr>name = ''NotConfiguredError'', code = ''NOT_CONFIGURED'',
          message = ''Dynalinks SDK has not been configured. Call Dynalinks.configure() first.''\<rparr>"
  by (simp add: fromNativeError_def error_ctor_defs)

text \<open>C9 at a non-empty native message.\<close>

theorem not_configured_fixed_message_witness:
  "message (projr (fromNativeError (Str ''NOT_CONFIGURED'') (Str ''SDK not configured''))) =
     ''Dynalinks SDK has not been configured. Call Dynalinks.configure() first.''"
  using not_configured_fixed_message [of "Str ''SDK not configured''"] by simp

text \<open>
  C10: the \<open>clientAPIKey\<close> of every payload that \<open>configure\<close> forwards is the value the
  caller supplied, unchanged: nothing is trimmed, normalized or substituted. For every
  configuration other than \<open>undefined\<close> and \<open>null\<close> there is exactly one such payload.
\<close>

theorem clientAPIKey_forwarded_verbatim:
  "(\<forall>c \<in> set (fst (configure M config)).
      \<exists>payload. c = ConfigureCall payload \<and>
        read payload ''clientAPIKey'' = read config ''clientAPIKey'') \<and>
   (config \<noteq> Undefined \<and> config \<noteq> Null \<longrightarrow>
      (\<exists>payload. fst (configure M config) = [ConfigureCall payload] \<and>
         read payload ''clientAPIKey'' = read config ''clientAPIKey''))"
proof (cases "config = Undefined \<or> config = Null")
  case True
  from configure_nullish [OF True, of M] show ?thesis using True by auto
next
  case False
  then show ?thesis by (simp add: configure_defined)
qed

text \<open>C10 at a key with surrounding blanks and mixed case.\<close>

theorem clientAPIKey_forwarded_verbatim_witness:
  "\<exists>payload.
     fst (configure resolving_module (Obj [(''clientAPIKey'', Str '' Key-01 '')])) =
       [ConfigureCall payload] \<and>
     read payload ''clientAPIKey'' = Str '' Key-01 ''"
  using clientAPIKey_forwarded_verbatim
          [of resolving_module "Obj [(''clientAPIKey'', Str '' Key-01 '')]"]
  by simp

end
